theory Spec2Isabelle
  imports Complex_Main "HOL-Library.AList"
begin

section \<open>Data drift detection: the model of \<open>drift_detector.py\<close>\<close>

text \<open>
  The theory embeds \<open>DataDriftDetector\<close> of
  \<open>src/federated_health_risk/monitoring/drift_detector.py\<close>.
  Floating-point numbers are idealised: a finite float is a real number (rounding is not
  modelled), and the three non-finite floats are values of their own, since the code
  produces and compares them.
\<close>

subsection \<open>Floats, errors, data frames\<close>

datatype pyfloat = Fin real | PInf | NInf | NaN

text \<open>Python's \<open>a < b\<close> and \<open>a >= b\<close> on floats: every comparison with nan is false.\<close>

fun fl_less :: "pyfloat \<Rightarrow> pyfloat \<Rightarrow> bool" where
  "fl_less NaN _ = False"
| "fl_less _ NaN = False"
| "fl_less (Fin a) (Fin b) = (a < b)"
| "fl_less (Fin _) PInf = True"
| "fl_less NInf (Fin _) = True"
| "fl_less NInf PInf = True"
| "fl_less _ _ = False"

fun fl_ge :: "pyfloat \<Rightarrow> pyfloat \<Rightarrow> bool" where
  "fl_ge NaN _ = False"
| "fl_ge _ NaN = False"
| "fl_ge (Fin a) (Fin b) = (b \<le> a)"
| "fl_ge PInf _ = True"
| "fl_ge _ NInf = True"
| "fl_ge _ _ = False"

fun is_fin :: "pyfloat \<Rightarrow> bool" where
  "is_fin (Fin _) = True"
| "is_fin _ = False"

fun fin_val :: "pyfloat \<Rightarrow> real" where
  "fin_val (Fin v) = v"
| "fin_val _ = 0"

text \<open>The exceptions that the modelled paths raise.\<close>

datatype error = ZeroDivisionError | KeyError string | ValueError | TypeError

text \<open>
  A column of a \<open>pandas.DataFrame\<close> is numeric (a missing cell is nan) or of another
  dtype (a missing cell is \<open>None\<close>). A data frame has a number of rows and its columns in
  order.
\<close>

datatype series = Numeric "pyfloat list" | Object "string option list"

record dataframe =
  nrows :: nat
  cols :: "(string \<times> series) list"

definition df_columns :: "dataframe \<Rightarrow> string list" where
  "df_columns df = map fst (cols df)"

text \<open>\<open>df.select_dtypes(include=[np.number]).columns\<close>\<close>

fun is_numeric :: "series \<Rightarrow> bool" where
  "is_numeric (Numeric _) = True"
| "is_numeric (Object _) = False"

definition numeric_columns :: "dataframe \<Rightarrow> string list" where
  "numeric_columns df = map fst (filter (\<lambda>(c, s). is_numeric s) (cols df))"

text \<open>\<open>df[col]\<close>: \<open>KeyError\<close> when the frame has no such column.\<close>

definition getitem :: "dataframe \<Rightarrow> string \<Rightarrow> error + series" where
  "getitem df col = (case map_of (cols df) col of None \<Rightarrow> Inl (KeyError col) | Some s \<Rightarrow> Inr s)"

fun dropna :: "series \<Rightarrow> series" where
  "dropna (Numeric xs) = Numeric (filter (\<lambda>x. x \<noteq> NaN) xs)"
| "dropna (Object xs) = Object (filter (\<lambda>x. x \<noteq> None) xs)"

fun series_len :: "series \<Rightarrow> nat" where
  "series_len (Numeric xs) = length xs"
| "series_len (Object xs) = length xs"

subsection \<open>\<open>numpy.histogram\<close> as the code uses it\<close>

text \<open>
  The edges of the bins are computed in float64, and a sample value next to an edge is
  counted by the edge as computed. The rounding of each float64 operation is therefore a
  parameter \<open>rnd\<close> of the edge computation, of which nothing is assumed: \<open>rnd x\<close> is the
  float64 that the operation returns when its exact result is \<open>x\<close>.

  \<open>np.histogram(a, bins=n)\<close> with an integer \<open>n\<close>: the outer edges are the minimum and the
  maximum of the sample, \<open>(0, 1)\<close> for an empty sample, widened by a half on each side
  when they coincide; a non-finite edge and \<open>n < 1\<close> raise \<open>ValueError\<close>. The edges are
  \<open>np.linspace(first, last, n + 1)\<close>.
\<close>

definition get_outer_edges :: "(real \<Rightarrow> real) \<Rightarrow> pyfloat list \<Rightarrow> error + (real \<times> real)" where
  "get_outer_edges rnd a =
     (if a = [] then Inr (0, 1)
      else if \<exists>x \<in> set a. \<not> is_fin x then Inl ValueError
      else let first_edge = Min (set (map fin_val a)); last_edge = Max (set (map fin_val a))
           in if first_edge = last_edge then Inr (rnd (first_edge - 0.5), rnd (last_edge + 0.5))
              else Inr (first_edge, last_edge))"

text \<open>
  \<open>np.linspace(start, stop, num)\<close> for \<open>num \<ge> 2\<close>, as numpy computes it:
  \<^verbatim>\<open>
  div = num - 1;  delta = stop - start;  y = arange(0, num)
  step = delta / div
  if step == 0:  y /= div; y *= delta
  else:          y *= step
  y += start;  y[-1] = stop
  \<close>
\<close>

definition linspace :: "(real \<Rightarrow> real) \<Rightarrow> real \<Rightarrow> real \<Rightarrow> nat \<Rightarrow> real list" where
  "linspace rnd start stop num =
     (let d = real (num - 1);
          delta = rnd (stop - start);
          step = rnd (delta / d);
          y = map (\<lambda>i. if step = 0 then rnd (rnd (real i / d) * delta) else rnd (real i * step))
                [0..<num];
          ys = map (\<lambda>v. rnd (v + start)) y
      in if 1 < num then butlast ys @ [stop] else ys)"

definition histogram_bin_edges :: "(real \<Rightarrow> real) \<Rightarrow> series \<Rightarrow> int \<Rightarrow> error + real list" where
  "histogram_bin_edges rnd s bins =
     (case s of
        Object _ \<Rightarrow> Inl TypeError
      | Numeric a \<Rightarrow>
          if bins < 1 then Inl ValueError
          else (case get_outer_edges rnd a of
                  Inl e \<Rightarrow> Inl e
                | Inr (first_edge, last_edge) \<Rightarrow>
                    Inr (linspace rnd first_edge last_edge (nat bins + 1))))"

text \<open>
  \<open>np.histogram(a, bins=edges)\<close> with explicit edges: they must not decrease; bin \<open>i\<close> is
  \<open>[edges[i], edges[i+1])\<close>, the last bin is closed on the right; a value outside all bins
  is not counted.
\<close>

fun in_bin :: "real list \<Rightarrow> nat \<Rightarrow> pyfloat \<Rightarrow> bool" where
  "in_bin edges i (Fin v) =
     (edges ! i \<le> v \<and> (if i + 2 = length edges then v \<le> edges ! (i + 1) else v < edges ! (i + 1)))"
| "in_bin edges i _ = False"

definition histogram_counts :: "series \<Rightarrow> real list \<Rightarrow> error + nat list" where
  "histogram_counts s edges =
     (case s of
        Object _ \<Rightarrow> Inl TypeError
      | Numeric a \<Rightarrow>
          if \<not> sorted edges then Inl ValueError
          else Inr (map (\<lambda>i. length (filter (in_bin edges i) a)) [0..<length edges - 1]))"

subsection \<open>The PSI of one column\<close>

text \<open>
  \<open>counts / len(data)\<close>: an empty sample has only zero counts, and numpy's \<open>0 / 0\<close> is nan
  (with a warning, not an exception).
\<close>

definition percents :: "nat list \<Rightarrow> nat \<Rightarrow> pyfloat list" where
  "percents counts n =
     (if n = 0 then map (\<lambda>c. NaN) counts else map (\<lambda>c. Fin (real c / real n)) counts)"

text \<open>\<open>np.where(p == 0, 0.0001, p)\<close>\<close>

definition floor_zero :: "pyfloat list \<Rightarrow> pyfloat list" where
  "floor_zero ps = map (\<lambda>p. if p = Fin 0 then Fin 0.0001 else p) ps"

text \<open>
  One summand \<open>(c - r) * np.log(c / r)\<close>. The fractions are finite or nan here, and a
  finite one is positive after \<open>floor_zero\<close>; nan propagates.
\<close>

fun psi_term :: "pyfloat \<Rightarrow> pyfloat \<Rightarrow> pyfloat" where
  "psi_term (Fin c) (Fin r) = (if 0 < c \<and> 0 < r then Fin ((c - r) * ln (c / r)) else NaN)"
| "psi_term _ _ = NaN"

fun fl_add :: "pyfloat \<Rightarrow> pyfloat \<Rightarrow> pyfloat" where
  "fl_add NaN _ = NaN"
| "fl_add _ NaN = NaN"
| "fl_add (Fin a) (Fin b) = Fin (a + b)"
| "fl_add PInf NInf = NaN"
| "fl_add NInf PInf = NaN"
| "fl_add PInf _ = PInf"
| "fl_add _ PInf = PInf"
| "fl_add NInf _ = NInf"
| "fl_add _ NInf = NInf"

definition np_sum :: "pyfloat list \<Rightarrow> pyfloat" where
  "np_sum xs = foldr fl_add xs (Fin 0)"

record psi_result =
  psi :: pyfloat
  drift_level :: string
  is_drifted :: bool

definition classify_psi :: "pyfloat \<Rightarrow> psi_result" where
  "classify_psi p =
     (if fl_ge p (Fin 0.2) then \<lparr>psi = p, drift_level = ''significant'', is_drifted = True\<rparr>
      else if fl_ge p (Fin 0.1) then \<lparr>psi = p, drift_level = ''moderate'', is_drifted = True\<rparr>
      else \<lparr>psi = p, drift_level = ''none'', is_drifted = False\<rparr>)"

text \<open>The body of the loop of \<open>detect_drift_psi\<close> for a column that both frames have.\<close>

definition column_psi :: "(real \<Rightarrow> real) \<Rightarrow> series \<Rightarrow> series \<Rightarrow> int \<Rightarrow> error + pyfloat" where
  "column_psi rnd ref_data curr_data bins =
     (case histogram_bin_edges rnd ref_data bins of
        Inl e \<Rightarrow> Inl e
      | Inr bin_edges \<Rightarrow>
          (case histogram_counts ref_data bin_edges of
             Inl e \<Rightarrow> Inl e
           | Inr ref_counts \<Rightarrow>
               (case histogram_counts curr_data bin_edges of
                  Inl e \<Rightarrow> Inl e
                | Inr curr_counts \<Rightarrow>
                    let ref_percents = floor_zero (percents ref_counts (series_len ref_data));
                        curr_percents = floor_zero (percents curr_counts (series_len curr_data))
                    in Inr (np_sum (map2 psi_term curr_percents ref_percents)))))"

subsection \<open>The detector and its two tests\<close>

record 'r summary =
  total_features :: nat
  drifted_features :: nat
  drift_percentage :: real
  drifted_feature_names :: "string list"
  details :: "(string \<times> 'r) list"

text \<open>
  \<open>len(drifted_features) / len(columns) * 100\<close>: true division of two integers, which
  raises \<open>ZeroDivisionError\<close> when the divisor is zero.
\<close>

definition make_summary :: "string list \<Rightarrow> string list \<Rightarrow> (string \<times> 'r) list \<Rightarrow> error + 'r summary" where
  "make_summary columns drifted results =
     (if length columns = 0 then Inl ZeroDivisionError
      else Inr \<lparr>total_features = length columns,
                drifted_features = length drifted,
                drift_percentage = real (length drifted) / real (length columns) * 100,
                drifted_feature_names = drifted,
                details = results\<rparr>)"

text \<open>
  Both tests run the same loop over \<open>columns\<close>: a column that the current frame lacks is
  skipped (\<open>continue\<close>); otherwise the column is tested, the result is stored under the
  column's name (a dict: a second store under the same name replaces the first), and the
  name is appended to \<open>drifted_features\<close> when the result says drifted. An exception of
  the test ends the loop.
\<close>

fun test_loop ::
  "(string \<Rightarrow> error + 'r) \<Rightarrow> ('r \<Rightarrow> bool) \<Rightarrow> string list \<Rightarrow> string list \<Rightarrow>
   (string \<times> 'r) list \<Rightarrow> string list \<Rightarrow> error + ((string \<times> 'r) list \<times> string list)" where
  "test_loop test drifted_of present [] results drifted = Inr (results, drifted)"
| "test_loop test drifted_of present (col # rest) results drifted =
     (if col \<notin> set present then test_loop test drifted_of present rest results drifted
      else (case test col of
              Inl e \<Rightarrow> Inl e
            | Inr r \<Rightarrow>
                test_loop test drifted_of present rest
                  (AList.update col r results)
                  (if drifted_of r then drifted @ [col] else drifted)))"

text \<open>
  The functions of scipy and pandas that the detector calls are parameters of the model:
  \<open>scipy.stats.ks_2samp\<close> (it returns the statistic and the p-value, or raises) and the
  reductions of a pandas column. So is the rounding of float64 operations in the
  computation of the bin edges.
\<close>

record library =
  float_round :: "real \<Rightarrow> real"
  ks_2samp :: "series \<Rightarrow> series \<Rightarrow> error + (pyfloat \<times> pyfloat)"
  series_mean :: "series \<Rightarrow> pyfloat"
  series_std :: "series \<Rightarrow> pyfloat"
  series_min :: "series \<Rightarrow> pyfloat"
  series_max :: "series \<Rightarrow> pyfloat"
  series_median :: "series \<Rightarrow> pyfloat"
  series_quantile :: "series \<Rightarrow> real \<Rightarrow> pyfloat"

record col_stats =
  mean :: pyfloat
  std :: pyfloat
  min_value :: pyfloat
  max_value :: pyfloat
  median :: pyfloat
  q25 :: pyfloat
  q75 :: pyfloat

definition column_statistics :: "library \<Rightarrow> series \<Rightarrow> col_stats" where
  "column_statistics lib s =
     \<lparr>mean = series_mean lib s, std = series_std lib s,
      min_value = series_min lib s, max_value = series_max lib s,
      median = series_median lib s,
      q25 = series_quantile lib s 0.25, q75 = series_quantile lib s 0.75\<rparr>"

definition compute_statistics :: "library \<Rightarrow> dataframe \<Rightarrow> (string \<times> col_stats) list" where
  "compute_statistics lib data =
     fold (\<lambda>(col, s) stats_dict. AList.update col (column_statistics lib s) stats_dict)
          (filter (\<lambda>(col, s). is_numeric s) (cols data)) []"

record detector =
  reference_data :: dataframe
  threshold :: pyfloat
  reference_stats :: "(string \<times> col_stats) list"

text \<open>\<open>DataDriftDetector.__init__\<close>\<close>

definition init_detector :: "library \<Rightarrow> dataframe \<Rightarrow> pyfloat \<Rightarrow> detector" where
  "init_detector lib ref thr =
     \<lparr>reference_data = ref, threshold = thr, reference_stats = compute_statistics lib ref\<rparr>"

record ks_result =
  statistic :: pyfloat
  p_value :: pyfloat
  ks_is_drifted :: bool
  ks_threshold :: pyfloat

text \<open>The body of the loop of \<open>detect_drift_ks_test\<close> for a column of the current frame.\<close>

definition ks_column :: "library \<Rightarrow> detector \<Rightarrow> dataframe \<Rightarrow> string \<Rightarrow> error + ks_result" where
  "ks_column lib det current_data col =
     (case getitem (reference_data det) col of
        Inl e \<Rightarrow> Inl e
      | Inr rs \<Rightarrow>
          (case getitem current_data col of
             Inl e \<Rightarrow> Inl e
           | Inr cs \<Rightarrow>
               (case ks_2samp lib (dropna rs) (dropna cs) of
                  Inl e \<Rightarrow> Inl e
                | Inr sp \<Rightarrow>
                    Inr \<lparr>statistic = fst sp, p_value = snd sp,
                         ks_is_drifted = fl_less (snd sp) (threshold det),
                         ks_threshold = threshold det\<rparr>)))"

text \<open>The body of the loop of \<open>detect_drift_psi\<close> for a column of the current frame.\<close>

definition psi_column ::
  "library \<Rightarrow> detector \<Rightarrow> dataframe \<Rightarrow> int \<Rightarrow> string \<Rightarrow> error + psi_result" where
  "psi_column lib det current_data bins col =
     (case getitem (reference_data det) col of
        Inl e \<Rightarrow> Inl e
      | Inr rs \<Rightarrow>
          (case getitem current_data col of
             Inl e \<Rightarrow> Inl e
           | Inr cs \<Rightarrow>
               (case column_psi (float_round lib) (dropna rs) (dropna cs) bins of
                  Inl e \<Rightarrow> Inl e
                | Inr p \<Rightarrow> Inr (classify_psi p))))"

definition default_columns :: "detector \<Rightarrow> string list option \<Rightarrow> string list" where
  "default_columns det columns =
     (case columns of None \<Rightarrow> numeric_columns (reference_data det) | Some cs \<Rightarrow> cs)"

definition detect_drift_ks_test ::
  "library \<Rightarrow> detector \<Rightarrow> dataframe \<Rightarrow> string list option \<Rightarrow> error + ks_result summary" where
  "detect_drift_ks_test lib det current_data columns =
     (case test_loop (ks_column lib det current_data) ks_is_drifted (df_columns current_data)
             (default_columns det columns) [] [] of
        Inl e \<Rightarrow> Inl e
      | Inr out \<Rightarrow> make_summary (default_columns det columns) (snd out) (fst out))"

definition detect_drift_psi ::
  "library \<Rightarrow> detector \<Rightarrow> dataframe \<Rightarrow> string list option \<Rightarrow> int \<Rightarrow>
   error + psi_result summary" where
  "detect_drift_psi lib det current_data columns bins =
     (case test_loop (psi_column lib det current_data bins) is_drifted (df_columns current_data)
             (default_columns det columns) [] [] of
        Inl e \<Rightarrow> Inl e
      | Inr out \<Rightarrow> make_summary (default_columns det columns) (snd out) (fst out))"

subsection \<open>The report\<close>

record statistics_comparison =
  reference :: "(string \<times> col_stats) list"
  current :: "(string \<times> col_stats) list"

record report =
  timestamp :: string
  reference_samples :: nat
  current_samples :: nat
  ks_test :: "ks_result summary"
  psi_test :: "psi_result summary"
  stats_comparison :: statistics_comparison
  overall_drift_detected :: bool

text \<open>
  \<open>generate_drift_report\<close> reads the clock (\<open>pd.Timestamp.now().isoformat()\<close>); the
  string it reads is the argument \<open>now\<close>.
\<close>

definition build_report ::
  "detector \<Rightarrow> string \<Rightarrow> dataframe \<Rightarrow> ks_result summary \<Rightarrow> psi_result summary \<Rightarrow>
   (string \<times> col_stats) list \<Rightarrow> report" where
  "build_report det now current_data ks_results psi_results current_stats =
     \<lparr>timestamp = now,
      reference_samples = nrows (reference_data det),
      current_samples = nrows current_data,
      ks_test = ks_results,
      psi_test = psi_results,
      stats_comparison = \<lparr>reference = reference_stats det, current = current_stats\<rparr>,
      overall_drift_detected =
        (0 < drifted_features ks_results \<or> 0 < drifted_features psi_results)\<rparr>"

definition generate_drift_report :: "library \<Rightarrow> detector \<Rightarrow> string \<Rightarrow> dataframe \<Rightarrow> error + report" where
  "generate_drift_report lib det now current_data =
     (case detect_drift_ks_test lib det current_data None of
        Inl e \<Rightarrow> Inl e
      | Inr ks_results \<Rightarrow>
          (case detect_drift_psi lib det current_data None 10 of
             Inl e \<Rightarrow> Inl e
           | Inr psi_results \<Rightarrow>
               Inr (build_report det now current_data ks_results psi_results
                      (compute_statistics lib current_data))))"

subsection \<open>The report serializer\<close>

text \<open>
  The values that a report holds: dicts with string keys, lists, Python scalars, and the
  numpy scalars and arrays that the tests may leave in it (\<open>NpFloating\<close> is
  \<open>numpy.float64\<close>, a subclass of Python's float).
\<close>

datatype pyobj =
    PDict "(string \<times> pyobj) list"
  | PList "pyobj list"
  | PStr string
  | PInt int
  | PFloat pyfloat
  | PBool bool
  | PNone
  | NpInteger int
  | NpFloating pyfloat
  | NpBool bool
  | NdArray "pyfloat list"

text \<open>The inner function of \<open>save_report\<close>, with its \<open>isinstance\<close> tests in order.\<close>

fun convert_to_json_serializable :: "pyobj \<Rightarrow> pyobj" where
  "convert_to_json_serializable (PDict kvs) =
     PDict (map (\<lambda>(k, v). (k, convert_to_json_serializable v)) kvs)"
| "convert_to_json_serializable (PList items) = PList (map convert_to_json_serializable items)"
| "convert_to_json_serializable (NpInteger i) = PFloat (Fin (of_int i))"
| "convert_to_json_serializable (NpFloating f) = PFloat f"
| "convert_to_json_serializable (NpBool b) = PBool b"
| "convert_to_json_serializable (NdArray xs) = PList (map PFloat xs)"
| "convert_to_json_serializable obj = obj"

text \<open>
  What \<open>json.dump\<close> writes, as the tree of its tokens: objects, arrays, strings, the
  numbers (the \<open>repr\<close> of an int or of a finite float is a JSON number) and the bare
  words. With Python's default \<open>allow_nan=True\<close> the encoder writes the three non-finite
  floats as the words \<open>NaN\<close>, \<open>Infinity\<close> and \<open>-Infinity\<close>. It raises \<open>TypeError\<close> on a
  value of a type it does not know (\<open>serializable\<close> is false); \<open>encode\<close> is what it writes
  otherwise, and its last equation is never reached through \<open>json_dump\<close>.
\<close>

datatype json_text =
    JObject "(string \<times> json_text) list"
  | JArray "json_text list"
  | JString string
  | JNumber real
  | JLiteral string

fun serializable :: "pyobj \<Rightarrow> bool" where
  "serializable (PDict kvs) = list_all (\<lambda>(k, v). serializable v) kvs"
| "serializable (PList items) = list_all serializable items"
| "serializable (NpInteger _) = False"
| "serializable (NpBool _) = False"
| "serializable (NdArray _) = False"
| "serializable _ = True"

fun float_literal :: "pyfloat \<Rightarrow> json_text" where
  "float_literal (Fin r) = JNumber r"
| "float_literal NaN = JLiteral ''NaN''"
| "float_literal PInf = JLiteral ''Infinity''"
| "float_literal NInf = JLiteral ''-Infinity''"

fun encode :: "pyobj \<Rightarrow> json_text" where
  "encode (PDict kvs) = JObject (map (\<lambda>(k, v). (k, encode v)) kvs)"
| "encode (PList items) = JArray (map encode items)"
| "encode (PStr s) = JString s"
| "encode (PInt i) = JNumber (of_int i)"
| "encode (PFloat f) = float_literal f"
| "encode (NpFloating f) = float_literal f"
| "encode (PBool b) = JLiteral (if b then ''true'' else ''false'')"
| "encode PNone = JLiteral ''null''"
| "encode _ = JLiteral ''null''"

definition json_dump :: "pyobj \<Rightarrow> error + json_text" where
  "json_dump obj = (if serializable obj then Inr (encode obj) else Inl TypeError)"

text \<open>
  \<open>save_report\<close>: the content that it writes to the file (the creation of the directory
  and the file's own errors are not modelled).
\<close>

definition save_report :: "pyobj \<Rightarrow> error + json_text" where
  "save_report report = json_dump (convert_to_json_serializable report)"

text \<open>
  JSON (RFC 8259): a value is an object, an array, a string, a number, or one of the words
  \<open>true\<close>, \<open>false\<close> and \<open>null\<close>.
\<close>

fun valid_json :: "json_text \<Rightarrow> bool" where
  "valid_json (JObject kvs) = list_all (\<lambda>(k, v). valid_json v) kvs"
| "valid_json (JArray items) = list_all valid_json items"
| "valid_json (JString _) = True"
| "valid_json (JNumber _) = True"
| "valid_json (JLiteral s) = (s = ''true'' \<or> s = ''false'' \<or> s = ''null'')"

text \<open>The dict that \<open>detect_drift_psi\<close> returns, as the value that \<open>save_report\<close> gets.\<close>

definition psi_result_dict :: "psi_result \<Rightarrow> pyobj" where
  "psi_result_dict r =
     PDict [(''psi'', PFloat (psi r)), (''drift_level'', PStr (drift_level r)),
            (''is_drifted'', PBool (is_drifted r))]"

definition psi_summary_dict :: "psi_result summary \<Rightarrow> pyobj" where
  "psi_summary_dict s =
     PDict [(''total_features'', PInt (int (total_features s))),
            (''drifted_features'', PInt (int (drifted_features s))),
            (''drift_percentage'', PFloat (Fin (drift_percentage s))),
            (''drifted_feature_names'', PList (map PStr (drifted_feature_names s))),
            (''details'', PDict (map (\<lambda>(c, r). (c, psi_result_dict r)) (details s)))]"

subsection \<open>Predicates of the properties\<close>

text \<open>
  The keys of a result dict whose entry says drifted, in the dict's iteration order, and
  the test \<open>results[c]["is_drifted"]\<close> for a name \<open>c\<close> (false when \<open>c\<close> is not a key).
\<close>

definition drifted_keys :: "('r \<Rightarrow> bool) \<Rightarrow> (string \<times> 'r) list \<Rightarrow> string list" where
  "drifted_keys d results = map fst (filter (\<lambda>(c, r). d r) results)"

definition drifted_in :: "('r \<Rightarrow> bool) \<Rightarrow> (string \<times> 'r) list \<Rightarrow> string \<Rightarrow> bool" where
  "drifted_in d results c = (case map_of results c of None \<Rightarrow> False | Some r \<Rightarrow> d r)"

text \<open>
  What holds of the names listed as drifted (C10): they are as many as
  \<open>drifted_features\<close> says, they are the requested columns whose entry says drifted, and
  they are the drifted keys when no column is requested twice.
\<close>

definition names_are_drifted_columns ::
  "('r \<Rightarrow> bool) \<Rightarrow> string list \<Rightarrow> 'r summary \<Rightarrow> bool" where
  "names_are_drifted_columns d columns s =
     (drifted_features s = length (drifted_feature_names s)
      \<and> drifted_feature_names s = filter (drifted_in d (details s)) columns
      \<and> (distinct columns \<longrightarrow> drifted_feature_names s = drifted_keys d (details s))
      \<and> drifted_features s \<le> total_features s)"

text \<open>
  How \<open>total_features\<close> counts (C1): every requested column counts, the keys of
  \<open>details\<close> are the requested columns that the current frame has, and no other column is
  listed as drifted.
\<close>

definition counts_requested_columns :: "string list \<Rightarrow> dataframe \<Rightarrow> 'r summary \<Rightarrow> bool" where
  "counts_requested_columns columns current_data s =
     (total_features s = length columns
      \<and> set (map fst (details s)) = set (filter (\<lambda>c. c \<in> set (df_columns current_data)) columns)
      \<and> set (drifted_feature_names s) \<subseteq> set (df_columns current_data)
      \<and> (distinct columns \<longrightarrow>
           total_features s =
             length (details s) + length (filter (\<lambda>c. c \<notin> set (df_columns current_data)) columns)))"

text \<open>
  The entry of \<open>details\<close> that the KS test stores for a column (C9): the p-value is that of
  \<open>ks_2samp\<close> on the two columns after \<open>dropna\<close>, the flag is \<open>p_value < threshold\<close>, and
  the threshold is the detector's.
\<close>

definition ks_entry_of ::
  "library \<Rightarrow> detector \<Rightarrow> dataframe \<Rightarrow> string \<Rightarrow> ks_result \<Rightarrow> bool" where
  "ks_entry_of lib det current_data col r =
     (\<exists>rs cs stat p.
        getitem (reference_data det) col = Inr rs \<and> getitem current_data col = Inr cs
        \<and> ks_2samp lib (dropna rs) (dropna cs) = Inr (stat, p)
        \<and> p_value r = p
        \<and> ks_is_drifted r = fl_less p (threshold det)
        \<and> ks_threshold r = threshold det)"

text \<open>The report with its timestamp blanked (C4).\<close>

definition without_timestamp :: "report \<Rightarrow> report" where
  "without_timestamp rep = rep\<lparr>timestamp := []\<rparr>"

text \<open>
  The entry of \<open>details\<close> that the PSI test stores for a column: the classification of the
  PSI of the two columns after \<open>dropna\<close>. A finite positive float and a finite float that
  is not negative (C8).
\<close>

definition psi_entry_of ::
  "library \<Rightarrow> detector \<Rightarrow> dataframe \<Rightarrow> int \<Rightarrow> string \<Rightarrow> psi_result \<Rightarrow> bool" where
  "psi_entry_of lib det current_data bins col r =
     (\<exists>rs cs p.
        getitem (reference_data det) col = Inr rs \<and> getitem current_data col = Inr cs
        \<and> column_psi (float_round lib) (dropna rs) (dropna cs) bins = Inr p
        \<and> r = classify_psi p)"

fun pos_fin :: "pyfloat \<Rightarrow> bool" where
  "pos_fin (Fin v) = (0 < v)"
| "pos_fin _ = False"

fun nonneg_fin :: "pyfloat \<Rightarrow> bool" where
  "nonneg_fin (Fin v) = (0 \<le> v)"
| "nonneg_fin _ = False"






subsection \<open>Example inputs\<close>

text \<open>
  The inputs at which the theorems are instantiated: a frame with the single numeric
  column \<open>x\<close>, a frame with the two numeric columns \<open>x\<close> and \<open>y\<close>, a frame with a single
  column of text, a frame without columns, a detector whose reference frame has the two
  rows \<open>x = 0\<close> and \<open>x = 10\<close>, a detector whose reference frame has the single row
  \<open>x = 5\<close>, and a detector whose reference frame has the two rows \<open>x = 0, y = 0\<close> and
  \<open>x = 10, y = 10\<close>. The library of the examples answers
  every KS test with statistic 0 and p-value 1, as scipy does for two equal samples, and
  every reduction of a column with nan. It rounds nothing: with these reference frames
  and 1, 2 or 10 bins every value of the edge computation is an integer or a half of
  one, which float64 holds exactly.
\<close>

definition single_column_frame :: "pyfloat list \<Rightarrow> dataframe" where
  "single_column_frame xs = \<lparr>nrows = length xs, cols = [(''x'', Numeric xs)]\<rparr>"

definition two_column_frame :: "pyfloat list \<Rightarrow> pyfloat list \<Rightarrow> dataframe" where
  "two_column_frame xs ys =
     \<lparr>nrows = length xs, cols = [(''x'', Numeric xs), (''y'', Numeric ys)]\<rparr>"

definition text_only_frame :: dataframe where
  "text_only_frame = \<lparr>nrows = 1, cols = [(''name'', Object [Some ''a''])]\<rparr>"

definition empty_frame :: dataframe where
  "empty_frame = \<lparr>nrows = 0, cols = []\<rparr>"

definition example_library :: library where
  "example_library =
     \<lparr>float_round = (\<lambda>x. x),
      ks_2samp = (\<lambda>a b. Inr (Fin 0, Fin 1)),
      series_mean = (\<lambda>s. NaN), series_std = (\<lambda>s. NaN), series_min = (\<lambda>s. NaN),
      series_max = (\<lambda>s. NaN), series_median = (\<lambda>s. NaN),
      series_quantile = (\<lambda>s q. NaN)\<rparr>"

definition example_detector :: detector where
  "example_detector =
     init_detector example_library (single_column_frame [Fin 0, Fin 10]) (Fin 0.05)"


definition two_column_detector :: detector where
  "two_column_detector =
     init_detector example_library (two_column_frame [Fin 0, Fin 10] [Fin 0, Fin 10]) (Fin 0.05)"

definition text_detector :: detector where
  "text_detector = init_detector example_library text_only_frame (Fin 0.05)"

section \<open>Properties\<close>

subsection \<open>The loop of both tests\<close>

lemma test_loop_invariant:
  assumes "test_loop test d present columns res dr = Inr out"
    and "\<forall>c r. map_of res c = Some r \<longrightarrow> P c r"
    and "\<forall>c r. c \<in> set present \<longrightarrow> test c = Inr r \<longrightarrow> P c r"
  shows "\<forall>c r. map_of (fst out) c = Some r \<longrightarrow> P c r"
  using assms
proof (induction columns arbitrary: res dr)
  case Nil
  then show ?case by auto
next
  case (Cons col rest)
  show ?case
  proof (cases "col \<in> set present")
    case False
    with Cons.prems(1) have "test_loop test d present rest res dr = Inr out" by simp
    from Cons.IH [OF this Cons.prems(2) Cons.prems(3)] show ?thesis .
  next
    case True
    show ?thesis
    proof (cases "test col")
      case (Inl e)
      with True Cons.prems(1) show ?thesis by simp
    next
      case (Inr r)
      with True Cons.prems(1) have step:
        "test_loop test d present rest (AList.update col r res)
           (if d r then dr @ [col] else dr) = Inr out" by simp
      have "P col r" using Cons.prems(3) True Inr by blast
      then have inv: "\<forall>c r'. map_of (AList.update col r res) c = Some r' \<longrightarrow> P c r'"
        using Cons.prems(2) by (simp add: update_conv')
      from Cons.IH [OF step inv Cons.prems(3)] show ?thesis .
    qed
  qed
qed

lemma make_summary_fields:
  assumes "make_summary columns drifted results = Inr s"
  shows "total_features s = length columns" "drifted_features s = length drifted"
    "drift_percentage s = real (length drifted) / real (length columns) * 100"
    "drifted_feature_names s = drifted" "details s = results" "columns \<noteq> []"
proof -
  from assms have ne: "length columns \<noteq> 0"
    by (cases "length columns = 0") (simp_all add: make_summary_def)
  with assms have s: "s = \<lparr>total_features = length columns,
                drifted_features = length drifted,
                drift_percentage = real (length drifted) / real (length columns) * 100,
                drifted_feature_names = drifted,
                details = results\<rparr>"
    by (simp add: make_summary_def)
  show "total_features s = length columns" by (simp add: s)
  show "drifted_features s = length drifted" by (simp add: s)
  show "drift_percentage s = real (length drifted) / real (length columns) * 100" by (simp add: s)
  show "drifted_feature_names s = drifted" by (simp add: s)
  show "details s = results" by (simp add: s)
  show "columns \<noteq> []" using ne by simp
qed

lemma detect_drift_psi_run:
  assumes "detect_drift_psi lib det cur columns bins = Inr s"
  obtains out where
    "test_loop (psi_column lib det cur bins) is_drifted (df_columns cur)
       (default_columns det columns) [] [] = Inr out"
    "make_summary (default_columns det columns) (snd out) (fst out) = Inr s"
proof (cases "test_loop (psi_column lib det cur bins) is_drifted (df_columns cur)
       (default_columns det columns) [] []")
  case (Inl e)
  with assms show ?thesis by (simp add: detect_drift_psi_def)
next
  case (Inr out)
  with assms have "make_summary (default_columns det columns) (snd out) (fst out) = Inr s"
    by (simp add: detect_drift_psi_def)
  with Inr that show ?thesis by blast
qed

lemma detect_drift_ks_test_run:
  assumes "detect_drift_ks_test lib det cur columns = Inr s"
  obtains out where
    "test_loop (ks_column lib det cur) ks_is_drifted (df_columns cur)
       (default_columns det columns) [] [] = Inr out"
    "make_summary (default_columns det columns) (snd out) (fst out) = Inr s"
proof (cases "test_loop (ks_column lib det cur) ks_is_drifted (df_columns cur)
       (default_columns det columns) [] []")
  case (Inl e)
  with assms show ?thesis by (simp add: detect_drift_ks_test_def)
next
  case (Inr out)
  with assms have "make_summary (default_columns det columns) (snd out) (fst out) = Inr s"
    by (simp add: detect_drift_ks_test_def)
  with Inr that show ?thesis by blast
qed

subsection \<open>A run of the PSI test on the example\<close>

lemma float_round_example: "float_round example_library = (\<lambda>x. x)"
  by (simp add: example_library_def)

lemma linspace_example: "linspace (\<lambda>x. x) 0 10 3 = [0, 5, 10]"
  by (simp add: linspace_def Let_def upt_conv_Cons numeral_3_eq_3)

lemma edges_example: "histogram_bin_edges (\<lambda>x. x) (Numeric [Fin 0, Fin 10]) 2 = Inr [0, 5, 10]"
  using linspace_example by (simp add: histogram_bin_edges_def get_outer_edges_def Let_def)

lemma counts_example: "histogram_counts (Numeric [Fin 0, Fin 10]) [0, 5, 10] = Inr [1, 1]"
  by (simp add: histogram_counts_def upt_conv_Cons)

lemma column_psi_example:
  "column_psi (\<lambda>x. x) (Numeric [Fin 0, Fin 10]) (Numeric [Fin 0, Fin 10]) 2 = Inr (Fin 0)"
  by (simp add: column_psi_def edges_example counts_example percents_def floor_zero_def
      np_sum_def Let_def)

lemma psi_column_example:
  "psi_column example_library example_detector (single_column_frame [Fin 0, Fin 10]) 2 ''x'' =
     Inr (classify_psi (Fin 0))"
  by (simp add: psi_column_def float_round_example example_detector_def init_detector_def
      single_column_frame_def getitem_def column_psi_example)

lemma default_columns_example: "default_columns example_detector None = [''x'']"
  by (simp add: default_columns_def numeric_columns_def example_detector_def
      init_detector_def single_column_frame_def)

lemma df_columns_example: "df_columns (single_column_frame xs) = [''x'']"
  by (simp add: df_columns_def single_column_frame_def)

lemma classify_psi_zero:
  "classify_psi (Fin 0) = \<lparr>psi = Fin 0, drift_level = ''none'', is_drifted = False\<rparr>"
  by (simp add: classify_psi_def)

lemma detect_drift_psi_example:
  "detect_drift_psi example_library example_detector (single_column_frame [Fin 0, Fin 10]) None 2 =
     Inr \<lparr>total_features = 1, drifted_features = 0, drift_percentage = 0,
          drifted_feature_names = [],
          details = [(''x'', \<lparr>psi = Fin 0, drift_level = ''none'', is_drifted = False\<rparr>)]\<rparr>"
  unfolding detect_drift_psi_def default_columns_example df_columns_example
  by (simp add: psi_column_example classify_psi_zero make_summary_def)

subsection \<open>The PSI bands\<close>

lemma classify_psi_psi: "psi (classify_psi p) = p"
  by (simp add: classify_psi_def)

lemma psi_column_classified:
  assumes "psi_column lib det cur bins c = Inr r"
  shows "r = classify_psi (psi r)"
proof -
  from assms obtain p where "r = classify_psi p"
    by (auto simp: psi_column_def split: sum.splits)
  then show ?thesis by (simp add: classify_psi_psi)
qed

lemma detect_drift_psi_classified:
  assumes "detect_drift_psi lib det cur columns bins = Inr s"
    and "map_of (details s) col = Some r"
  shows "r = classify_psi (psi r)"
proof -
  from assms(1) obtain out where
    loop: "test_loop (psi_column lib det cur bins) is_drifted (df_columns cur)
             (default_columns det columns) [] [] = Inr out"
    and s: "make_summary (default_columns det columns) (snd out) (fst out) = Inr s"
    by (rule detect_drift_psi_run)
  have "\<forall>c r. map_of (fst out) c = Some r \<longrightarrow> r = classify_psi (psi r)"
    by (rule test_loop_invariant [OF loop]) (auto dest: psi_column_classified)
  moreover have "details s = fst out" using make_summary_fields(5) [OF s] .
  ultimately show ?thesis using assms(2) by simp
qed

lemma fl_ge_fifth_tenth: "fl_ge p (Fin 0.2) \<Longrightarrow> fl_ge p (Fin 0.1)"
  by (cases p) auto

lemma fl_less_not_ge: "fl_less p q \<Longrightarrow> \<not> fl_ge p q"
  by (cases p; cases q) auto

lemma classify_psi_bands:
  "(fl_ge p (Fin 0.2) \<longrightarrow>
      drift_level (classify_psi p) = ''significant'' \<and> is_drifted (classify_psi p))
   \<and> (fl_ge p (Fin 0.1) \<and> fl_less p (Fin 0.2) \<longrightarrow>
      drift_level (classify_psi p) = ''moderate'' \<and> is_drifted (classify_psi p))
   \<and> (fl_less p (Fin 0.1) \<longrightarrow>
      drift_level (classify_psi p) = ''none'' \<and> \<not> is_drifted (classify_psi p))"
proof (intro conjI impI)
  assume "fl_ge p (Fin 0.2)"
  then show "drift_level (classify_psi p) = ''significant''" "is_drifted (classify_psi p)"
    by (simp_all add: classify_psi_def)
next
  assume a: "fl_ge p (Fin 0.1) \<and> fl_less p (Fin 0.2)"
  then have "\<not> fl_ge p (Fin 0.2)" using fl_less_not_ge by blast
  with a show "drift_level (classify_psi p) = ''moderate''" "is_drifted (classify_psi p)"
    by (simp_all add: classify_psi_def)
next
  assume a: "fl_less p (Fin 0.1)"
  then have n1: "\<not> fl_ge p (Fin 0.1)" by (rule fl_less_not_ge)
  then have "\<not> fl_ge p (Fin 0.2)" using fl_ge_fifth_tenth by blast
  with n1 show "drift_level (classify_psi p) = ''none''" "\<not> is_drifted (classify_psi p)"
    by (simp_all add: classify_psi_def)
qed

text \<open>
  C7. In every column result of \<open>detect_drift_psi\<close>: \<open>psi \<ge> 0.2\<close> gives the level
  "significant" and \<open>is_drifted\<close>; \<open>0.1 \<le> psi < 0.2\<close> gives "moderate" and
  \<open>is_drifted\<close>; \<open>psi < 0.1\<close> gives "none" and not \<open>is_drifted\<close>.
\<close>

theorem psi_bands:
  assumes "detect_drift_psi lib det cur columns bins = Inr s"
    and "map_of (details s) col = Some r"
  shows "(fl_ge (psi r) (Fin 0.2) \<longrightarrow> drift_level r = ''significant'' \<and> is_drifted r)
       \<and> (fl_ge (psi r) (Fin 0.1) \<and> fl_less (psi r) (Fin 0.2)
            \<longrightarrow> drift_level r = ''moderate'' \<and> is_drifted r)
       \<and> (fl_less (psi r) (Fin 0.1) \<longrightarrow> drift_level r = ''none'' \<and> \<not> is_drifted r)"
proof -
  have r: "classify_psi (psi r) = r"
    using detect_drift_psi_classified [OF assms] by simp
  show ?thesis using classify_psi_bands [of "psi r"] unfolding r .
qed

theorem psi_bands_witness:
  "detect_drift_psi example_library example_detector (single_column_frame [Fin 0, Fin 10]) None 2 =
     Inr \<lparr>total_features = 1, drifted_features = 0, drift_percentage = 0,
          drifted_feature_names = [],
          details = [(''x'', \<lparr>psi = Fin 0, drift_level = ''none'', is_drifted = False\<rparr>)]\<rparr>
   \<and> fl_less (Fin 0) (Fin 0.1)
   \<and> drift_level \<lparr>psi = Fin 0, drift_level = ''none'', is_drifted = False\<rparr> = ''none''
   \<and> \<not> is_drifted \<lparr>psi = Fin 0, drift_level = ''none'', is_drifted = False\<rparr>"
  using psi_bands [OF detect_drift_psi_example,
      of "''x''" "\<lparr>psi = Fin 0, drift_level = ''none'', is_drifted = False\<rparr>"]
    detect_drift_psi_example
  by simp

subsection \<open>What the loop computes\<close>

lemma test_loop_drifted:
  assumes "test_loop test d present columns res dr = Inr out"
  shows "snd out = dr @ filter (\<lambda>c. c \<in> set present \<and> d (projr (test c))) columns"
  using assms
proof (induction columns arbitrary: res dr)
  case Nil
  then show ?case by auto
next
  case (Cons col rest)
  show ?case
  proof (cases "col \<in> set present")
    case False
    with Cons.prems have "test_loop test d present rest res dr = Inr out" by simp
    from Cons.IH [OF this] False show ?thesis by simp
  next
    case True
    show ?thesis
    proof (cases "test col")
      case (Inl e)
      with True Cons.prems show ?thesis by simp
    next
      case (Inr r)
      with True Cons.prems have step:
        "test_loop test d present rest (AList.update col r res)
           (if d r then dr @ [col] else dr) = Inr out" by simp
      from Cons.IH [OF step] True Inr show ?thesis by simp
    qed
  qed
qed

lemma test_loop_lookup:
  assumes "test_loop test d present columns res dr = Inr out"
  shows "map_of (fst out) c =
           (if c \<in> set columns \<and> c \<in> set present then Some (projr (test c)) else map_of res c)"
  using assms
proof (induction columns arbitrary: res dr)
  case Nil
  then show ?case by auto
next
  case (Cons col rest)
  show ?case
  proof (cases "col \<in> set present")
    case False
    with Cons.prems have "test_loop test d present rest res dr = Inr out" by simp
    from Cons.IH [OF this] False show ?thesis by auto
  next
    case True
    show ?thesis
    proof (cases "test col")
      case (Inl e)
      with True Cons.prems show ?thesis by simp
    next
      case (Inr r)
      with True Cons.prems have step:
        "test_loop test d present rest (AList.update col r res)
           (if d r then dr @ [col] else dr) = Inr out" by simp
      from Cons.IH [OF step] True Inr show ?thesis by (simp add: update_conv')
    qed
  qed
qed

lemma update_fresh: "k \<notin> fst ` set al \<Longrightarrow> AList.update k v al = al @ [(k, v)]"
  by (induction al) auto

lemma test_loop_distinct:
  assumes "test_loop test d present columns res dr = Inr out"
    and "distinct columns" and "set columns \<inter> fst ` set res = {}"
  shows "fst out = res @ map (\<lambda>c. (c, projr (test c))) (filter (\<lambda>c. c \<in> set present) columns)"
  using assms
proof (induction columns arbitrary: res dr)
  case Nil
  then show ?case by auto
next
  case (Cons col rest)
  from Cons.prems(2) have dist: "distinct rest" and notin: "col \<notin> set rest" by simp_all
  from Cons.prems(3) have fresh: "col \<notin> fst ` set res" and disj: "set rest \<inter> fst ` set res = {}"
    by auto
  show ?case
  proof (cases "col \<in> set present")
    case False
    with Cons.prems(1) have "test_loop test d present rest res dr = Inr out" by simp
    from Cons.IH [OF this dist disj] False show ?thesis by simp
  next
    case True
    show ?thesis
    proof (cases "test col")
      case (Inl e)
      with True Cons.prems(1) show ?thesis by simp
    next
      case (Inr r)
      with True Cons.prems(1) have step:
        "test_loop test d present rest (AList.update col r res)
           (if d r then dr @ [col] else dr) = Inr out" by simp
      have upd: "AList.update col r res = res @ [(col, r)]" using fresh by (rule update_fresh)
      have "set rest \<inter> fst ` set (AList.update col r res) = {}"
        using disj notin by (auto simp: upd)
      from Cons.IH [OF step dist this] True Inr show ?thesis by (simp add: upd)
    qed
  qed
qed

lemma loop_summary:
  assumes loop: "test_loop test d present columns [] [] = Inr out"
    and mk: "make_summary columns (snd out) (fst out) = Inr s"
  shows "total_features s = length columns"
    and "drifted_features s = length (drifted_feature_names s)"
    and "drifted_feature_names s = filter (\<lambda>c. c \<in> set present \<and> d (projr (test c))) columns"
    and "map_of (details s) c =
           (if c \<in> set columns \<and> c \<in> set present then Some (projr (test c)) else None)"
    and "distinct columns \<Longrightarrow>
           details s = map (\<lambda>c. (c, projr (test c))) (filter (\<lambda>c. c \<in> set present) columns)"
    and "drifted_features s \<le> total_features s"
proof -
  note f = make_summary_fields [OF mk]
  have dr: "snd out = filter (\<lambda>c. c \<in> set present \<and> d (projr (test c))) columns"
    using test_loop_drifted [OF loop] by simp
  show "total_features s = length columns" by (rule f(1))
  show "drifted_features s = length (drifted_feature_names s)" by (simp add: f(2) f(4))
  show "drifted_feature_names s = filter (\<lambda>c. c \<in> set present \<and> d (projr (test c))) columns"
    by (simp add: f(4) dr)
  show "map_of (details s) c =
           (if c \<in> set columns \<and> c \<in> set present then Some (projr (test c)) else None)"
    using test_loop_lookup [OF loop, of c] by (simp add: f(5))
  show "details s = map (\<lambda>c. (c, projr (test c))) (filter (\<lambda>c. c \<in> set present) columns)"
    if "distinct columns"
    using test_loop_distinct [OF loop that] by (simp add: f(5))
  have "length (snd out) \<le> length columns" unfolding dr by (rule length_filter_le)
  then show "drifted_features s \<le> total_features s" by (simp add: f(1) f(2))
qed

lemma loop_names_drifted_in:
  assumes loop: "test_loop test d present columns [] [] = Inr out"
    and mk: "make_summary columns (snd out) (fst out) = Inr s"
  shows "drifted_feature_names s = filter (drifted_in d (details s)) columns"
proof -
  have "(c \<in> set present \<and> d (projr (test c))) = drifted_in d (details s) c"
    if "c \<in> set columns" for c
    using that loop_summary(4) [OF loop mk, of c] by (simp add: drifted_in_def)
  then have "filter (\<lambda>c. c \<in> set present \<and> d (projr (test c))) columns =
             filter (drifted_in d (details s)) columns"
    by (intro filter_cong) auto
  with loop_summary(3) [OF loop mk] show ?thesis by simp
qed

lemma loop_names_drifted_keys:
  assumes loop: "test_loop test d present columns [] [] = Inr out"
    and mk: "make_summary columns (snd out) (fst out) = Inr s"
    and dist: "distinct columns"
  shows "drifted_feature_names s = drifted_keys d (details s)"
proof -
  have "drifted_keys d (map (\<lambda>c. (c, projr (test c))) cs) = filter (\<lambda>c. d (projr (test c))) cs"
    for cs
    by (induction cs) (simp_all add: drifted_keys_def)
  then have "drifted_keys d (details s) =
             filter (\<lambda>c. d (projr (test c))) (filter (\<lambda>c. c \<in> set present) columns)"
    using loop_summary(5) [OF loop mk dist] by simp
  also have "\<dots> = filter (\<lambda>c. c \<in> set present \<and> d (projr (test c))) columns"
    by (simp add: conj_commute)
  finally show ?thesis using loop_summary(3) [OF loop mk] by simp
qed

text \<open>
  C10 (amended). In every summary of either test, \<open>drifted_features\<close> is the length of
  \<open>drifted_feature_names\<close> and at most \<open>total_features\<close>; the names are the requested
  columns, in iteration order and as often as they are requested, whose entry in
  \<open>details\<close> says drifted; when no column is requested twice they are exactly the keys of
  \<open>details\<close> whose entry says drifted, in iteration order.
\<close>

theorem summary_names_amended:
  "(detect_drift_ks_test lib det cur columns = Inr ks \<longrightarrow>
      names_are_drifted_columns ks_is_drifted (default_columns det columns) ks)
   \<and> (detect_drift_psi lib det cur columns bins = Inr ps \<longrightarrow>
      names_are_drifted_columns is_drifted (default_columns det columns) ps)"
proof (intro conjI impI)
  assume "detect_drift_ks_test lib det cur columns = Inr ks"
  then obtain out where
    loop: "test_loop (ks_column lib det cur) ks_is_drifted (df_columns cur)
             (default_columns det columns) [] [] = Inr out"
    and mk: "make_summary (default_columns det columns) (snd out) (fst out) = Inr ks"
    by (rule detect_drift_ks_test_run)
  show "names_are_drifted_columns ks_is_drifted (default_columns det columns) ks"
    unfolding names_are_drifted_columns_def
    using loop_summary(2) [OF loop mk] loop_summary(6) [OF loop mk]
      loop_names_drifted_in [OF loop mk] loop_names_drifted_keys [OF loop mk]
    by blast
next
  assume "detect_drift_psi lib det cur columns bins = Inr ps"
  then obtain out where
    loop: "test_loop (psi_column lib det cur bins) is_drifted (df_columns cur)
             (default_columns det columns) [] [] = Inr out"
    and mk: "make_summary (default_columns det columns) (snd out) (fst out) = Inr ps"
    by (rule detect_drift_psi_run)
  show "names_are_drifted_columns is_drifted (default_columns det columns) ps"
    unfolding names_are_drifted_columns_def
    using loop_summary(2) [OF loop mk] loop_summary(6) [OF loop mk]
      loop_names_drifted_in [OF loop mk] loop_names_drifted_keys [OF loop mk]
    by blast
qed

lemma counts_outside_example: "histogram_counts (Numeric [Fin 50]) [0, 5, 10] = Inr [0, 0]"
  by (simp add: histogram_counts_def upt_conv_Cons)

lemma column_psi_disjoint:
  "column_psi (\<lambda>x. x) (Numeric [Fin 0, Fin 10]) (Numeric [Fin 50]) 2 =
     Inr (Fin (2 * ((0.0001 - 0.5) * ln (0.0001 / 0.5))))"
  by (simp add: column_psi_def edges_example counts_example counts_outside_example
      percents_def floor_zero_def np_sum_def Let_def)

lemma ln_5000: "1 \<le> ln (5000::real)"
proof -
  have "exp (1::real) \<le> 3" by (rule exp_le)
  then have "exp (1::real) \<le> 5000" by simp
  then show ?thesis by (simp add: ln_ge_iff)
qed

lemma disjoint_psi_large: "(0.2::real) \<le> 2 * ((0.0001 - 0.5) * ln (0.0001 / 0.5))"
proof -
  have "ln (0.0001 / 0.5 :: real) = - ln 5000"
  proof -
    have "(0.0001 / 0.5 :: real) = inverse 5000" by simp
    then show ?thesis by (simp only: ln_inverse)
  qed
  then have "2 * ((0.0001 - 0.5) * ln (0.0001 / 0.5 :: real)) = 0.9998 * ln 5000" by simp
  also have "\<dots> \<ge> 0.9998 * 1" using ln_5000 by (intro mult_left_mono) simp_all
  finally show ?thesis by simp
qed

lemma classify_psi_disjoint:
  "classify_psi (Fin (2 * ((0.0001 - 0.5) * ln (0.0001 / 0.5)))) =
     \<lparr>psi = Fin (2 * ((0.0001 - 0.5) * ln (0.0001 / 0.5))), drift_level = ''significant'',
      is_drifted = True\<rparr>"
  using disjoint_psi_large unfolding classify_psi_def by (simp only: fl_ge.simps if_True)

lemma psi_column_disjoint:
  "psi_column example_library example_detector (single_column_frame [Fin 50]) 2 ''x'' =
     Inr \<lparr>psi = Fin (2 * ((0.0001 - 0.5) * ln (0.0001 / 0.5))), drift_level = ''significant'',
      is_drifted = True\<rparr>"
proof -
  have "psi_column example_library example_detector (single_column_frame [Fin 50]) 2 ''x'' =
        Inr (classify_psi (Fin (2 * ((0.0001 - 0.5) * ln (0.0001 / 0.5)))))"
    by (simp add: psi_column_def float_round_example example_detector_def init_detector_def
      single_column_frame_def getitem_def column_psi_disjoint)
  then show ?thesis by (simp only: classify_psi_disjoint)
qed

lemma detect_drift_psi_duplicate:
  "detect_drift_psi example_library example_detector (single_column_frame [Fin 50]) (Some [''x'', ''x'']) 2 =
     Inr \<lparr>total_features = 2, drifted_features = 2, drift_percentage = 100,
          drifted_feature_names = [''x'', ''x''],
          details = [(''x'', \<lparr>psi = Fin (2 * ((0.0001 - 0.5) * ln (0.0001 / 0.5))),
                              drift_level = ''significant'', is_drifted = True\<rparr>)]\<rparr>"
proof -
  have c: "default_columns example_detector (Some [''x'', ''x'']) = [''x'', ''x'']"
    by (simp add: default_columns_def)
  show ?thesis
    unfolding detect_drift_psi_def c df_columns_example
    by (simp add: psi_column_disjoint make_summary_def)
qed

text \<open>
  C10 as stated fails when a column is requested twice: the name is listed twice, but
  \<open>details\<close> has one key.
\<close>

theorem summary_names_counterexample:
  "detect_drift_psi example_library example_detector (single_column_frame [Fin 50]) (Some [''x'', ''x'']) 2 =
     Inr \<lparr>total_features = 2, drifted_features = 2, drift_percentage = 100,
          drifted_feature_names = [''x'', ''x''],
          details = [(''x'', \<lparr>psi = Fin (2 * ((0.0001 - 0.5) * ln (0.0001 / 0.5))),
                              drift_level = ''significant'', is_drifted = True\<rparr>)]\<rparr>
   \<and> drifted_keys is_drifted
        [(''x'', \<lparr>psi = Fin (2 * ((0.0001 - 0.5) * ln (0.0001 / 0.5))),
                  drift_level = ''significant'', is_drifted = True\<rparr>)] = [''x'']
   \<and> [''x'', ''x''] \<noteq> [''x'']"
  using detect_drift_psi_duplicate by (simp add: drifted_keys_def)

lemma loop_counts_requested:
  assumes loop: "test_loop test d (df_columns cur) columns [] [] = Inr out"
    and mk: "make_summary columns (snd out) (fst out) = Inr s"
  shows "counts_requested_columns columns cur s"
proof -
  have keys: "set (map fst (details s)) = set (filter (\<lambda>c. c \<in> set (df_columns cur)) columns)"
  proof -
    have "set (map fst (details s)) = dom (map_of (details s))"
      by (simp add: dom_map_of_conv_image_fst)
    also have "\<dots> = {c. c \<in> set columns \<and> c \<in> set (df_columns cur)}"
      using loop_summary(4) [OF loop mk] by (auto simp: dom_def)
    finally show ?thesis by auto
  qed
  have names: "set (drifted_feature_names s) \<subseteq> set (df_columns cur)"
    using loop_summary(3) [OF loop mk] by auto
  have count: "total_features s =
      length (details s) + length (filter (\<lambda>c. c \<notin> set (df_columns cur)) columns)"
    if "distinct columns"
  proof -
    have "length (details s) = length (filter (\<lambda>c. c \<in> set (df_columns cur)) columns)"
      using loop_summary(5) [OF loop mk that] by simp
    moreover have "length (filter (\<lambda>c. c \<in> set (df_columns cur)) columns)
        + length (filter (\<lambda>c. c \<notin> set (df_columns cur)) columns) = length columns"
      using sum_length_filter_compl [of "\<lambda>c. c \<in> set (df_columns cur)" columns] by simp
    ultimately show ?thesis using loop_summary(1) [OF loop mk] by simp
  qed
  show ?thesis
    unfolding counts_requested_columns_def
    using loop_summary(1) [OF loop mk] keys names count by blast
qed

text \<open>
  What \<open>total_features\<close> is in the summaries of both tests: the number of requested
  columns. A requested column that the current dataset lacks is skipped, so it is no key
  of \<open>details\<close> and is not listed as drifted, but it is counted.
\<close>

lemma summary_counts_requested:
  "(detect_drift_ks_test lib det cur columns = Inr ks \<longrightarrow>
      counts_requested_columns (default_columns det columns) cur ks)
   \<and> (detect_drift_psi lib det cur columns bins = Inr ps \<longrightarrow>
      counts_requested_columns (default_columns det columns) cur ps)"
proof (intro conjI impI)
  assume "detect_drift_ks_test lib det cur columns = Inr ks"
  then obtain out where
    "test_loop (ks_column lib det cur) ks_is_drifted (df_columns cur)
       (default_columns det columns) [] [] = Inr out"
    "make_summary (default_columns det columns) (snd out) (fst out) = Inr ks"
    by (rule detect_drift_ks_test_run)
  then show "counts_requested_columns (default_columns det columns) cur ks"
    by (rule loop_counts_requested)
next
  assume "detect_drift_psi lib det cur columns bins = Inr ps"
  then obtain out where
    "test_loop (psi_column lib det cur bins) is_drifted (df_columns cur)
       (default_columns det columns) [] [] = Inr out"
    "make_summary (default_columns det columns) (snd out) (fst out) = Inr ps"
    by (rule detect_drift_psi_run)
  then show "counts_requested_columns (default_columns det columns) cur ps"
    by (rule loop_counts_requested)
qed

lemma df_columns_empty: "df_columns empty_frame = []"
  by (simp add: df_columns_def empty_frame_def)

lemma detect_drift_psi_absent:
  "detect_drift_psi example_library example_detector empty_frame None 10 =
     Inr \<lparr>total_features = 1, drifted_features = 0, drift_percentage = 0,
          drifted_feature_names = [], details = []\<rparr>"
  unfolding detect_drift_psi_def default_columns_example df_columns_empty
  by (simp add: make_summary_def)

lemma detect_drift_ks_test_absent:
  "detect_drift_ks_test example_library example_detector empty_frame None =
     Inr \<lparr>total_features = 1, drifted_features = 0, drift_percentage = 0,
          drifted_feature_names = [], details = []\<rparr>"
  unfolding detect_drift_ks_test_def default_columns_example df_columns_empty
  by (simp add: make_summary_def)

lemma summary_counts_requested_example:
  "detect_drift_ks_test example_library example_detector empty_frame None =
     Inr \<lparr>total_features = 1, drifted_features = 0, drift_percentage = 0,
          drifted_feature_names = [], details = []\<rparr>
   \<and> detect_drift_psi example_library example_detector empty_frame None 10 =
     Inr \<lparr>total_features = 1, drifted_features = 0, drift_percentage = 0,
          drifted_feature_names = [], details = []\<rparr>
   \<and> counts_requested_columns [''x''] empty_frame
       \<lparr>total_features = 1, drifted_features = 0, drift_percentage = 0,
        drifted_feature_names = [], details = ([] :: (string \<times> ks_result) list)\<rparr>
   \<and> counts_requested_columns [''x''] empty_frame
       \<lparr>total_features = 1, drifted_features = 0, drift_percentage = 0,
        drifted_feature_names = [], details = ([] :: (string \<times> psi_result) list)\<rparr>"
  using summary_counts_requested [of example_library example_detector empty_frame None _ 10]
    detect_drift_psi_absent detect_drift_ks_test_absent default_columns_example
  by simp

lemma default_columns_two: "default_columns two_column_detector None = [''x'', ''y'']"
  by (simp add: default_columns_def numeric_columns_def two_column_detector_def
      init_detector_def two_column_frame_def)

lemma psi_column_two:
  "psi_column example_library two_column_detector (single_column_frame [Fin 50]) 2 ''x'' =
     Inr \<lparr>psi = Fin (2 * ((0.0001 - 0.5) * ln (0.0001 / 0.5))), drift_level = ''significant'',
      is_drifted = True\<rparr>"
proof -
  have "psi_column example_library two_column_detector (single_column_frame [Fin 50]) 2 ''x'' =
        Inr (classify_psi (Fin (2 * ((0.0001 - 0.5) * ln (0.0001 / 0.5)))))"
    by (simp add: psi_column_def float_round_example two_column_detector_def init_detector_def
      two_column_frame_def single_column_frame_def getitem_def column_psi_disjoint)
  then show ?thesis by (simp only: classify_psi_disjoint)
qed

lemma detect_drift_psi_two:
  "detect_drift_psi example_library two_column_detector (single_column_frame [Fin 50]) None 2 =
     Inr \<lparr>total_features = 2, drifted_features = 1, drift_percentage = 50,
          drifted_feature_names = [''x''],
          details = [(''x'', \<lparr>psi = Fin (2 * ((0.0001 - 0.5) * ln (0.0001 / 0.5))),
                              drift_level = ''significant'', is_drifted = True\<rparr>)]\<rparr>"
  unfolding detect_drift_psi_def default_columns_two df_columns_example
  by (simp add: psi_column_two make_summary_def)

text \<open>
  C1. A column of the reference dataset that the current dataset lacks is skipped by both
  tests, but it does count toward \<open>total_features\<close>, which is not the number of columns
  tested. With the reference column \<open>x\<close> and a current frame without columns, neither
  test tests a column and \<open>total_features\<close> is 1. With the reference columns \<open>x\<close> and \<open>y\<close>
  and a current frame that has \<open>x\<close> only, the PSI test tests \<open>x\<close> alone and finds it
  drifted, \<open>total_features\<close> is 2, and \<open>drift_percentage\<close> is 50 where the one column
  tested has drifted.
\<close>

theorem skipped_column_is_counted:
  "detect_drift_psi example_library example_detector empty_frame None 10 =
     Inr \<lparr>total_features = 1, drifted_features = 0, drift_percentage = 0,
          drifted_feature_names = [], details = []\<rparr>
   \<and> detect_drift_ks_test example_library example_detector empty_frame None =
     Inr \<lparr>total_features = 1, drifted_features = 0, drift_percentage = 0,
          drifted_feature_names = [], details = []\<rparr>
   \<and> numeric_columns (reference_data example_detector) = [''x'']
   \<and> df_columns empty_frame = []
   \<and> detect_drift_psi example_library two_column_detector (single_column_frame [Fin 50]) None 2 =
     Inr \<lparr>total_features = 2, drifted_features = 1, drift_percentage = 50,
          drifted_feature_names = [''x''],
          details = [(''x'', \<lparr>psi = Fin (2 * ((0.0001 - 0.5) * ln (0.0001 / 0.5))),
                              drift_level = ''significant'', is_drifted = True\<rparr>)]\<rparr>
   \<and> numeric_columns (reference_data two_column_detector) = [''x'', ''y'']
   \<and> df_columns (single_column_frame [Fin 50]) = [''x'']"
  using detect_drift_psi_absent detect_drift_ks_test_absent default_columns_example
    df_columns_empty detect_drift_psi_two default_columns_two
    df_columns_example [of "[Fin 50]"]
  by (simp add: default_columns_def)

lemma default_columns_text: "default_columns text_detector None = []"
  by (simp add: default_columns_def numeric_columns_def text_detector_def init_detector_def
      text_only_frame_def)

lemma drift_percentage_formula:
  "detect_drift_ks_test lib det cur columns = Inr ks \<Longrightarrow>
     0 < total_features ks \<and>
     drift_percentage ks = real (drifted_features ks) / real (total_features ks) * 100"
  "detect_drift_psi lib det cur columns bins = Inr ps \<Longrightarrow>
     0 < total_features ps \<and>
     drift_percentage ps = real (drifted_features ps) / real (total_features ps) * 100"
proof -
  assume "detect_drift_ks_test lib det cur columns = Inr ks"
  then obtain out where
    "make_summary (default_columns det columns) (snd out) (fst out) = Inr ks"
    by (rule detect_drift_ks_test_run)
  from make_summary_fields [OF this]
  show "0 < total_features ks \<and>
     drift_percentage ks = real (drifted_features ks) / real (total_features ks) * 100"
    by simp
next
  assume "detect_drift_psi lib det cur columns bins = Inr ps"
  then obtain out where
    "make_summary (default_columns det columns) (snd out) (fst out) = Inr ps"
    by (rule detect_drift_psi_run)
  from make_summary_fields [OF this]
  show "0 < total_features ps \<and>
     drift_percentage ps = real (drifted_features ps) / real (total_features ps) * 100"
    by simp
qed

text \<open>
  C2. \<open>drift_percentage\<close> is \<open>drifted_features / total_features * 100\<close> in every summary
  (\<open>drift_percentage_formula\<close>), but with no column to check the division raises
  \<open>ZeroDivisionError\<close> in both tests and in \<open>generate_drift_report\<close>: here for a
  reference frame whose only column is text.
\<close>

theorem empty_column_set_raises:
  "detect_drift_ks_test example_library text_detector text_only_frame None = Inl ZeroDivisionError
   \<and> detect_drift_psi example_library text_detector text_only_frame None 10 = Inl ZeroDivisionError
   \<and> generate_drift_report example_library text_detector ''2026-01-01T00:00:00'' text_only_frame
       = Inl ZeroDivisionError"
proof -
  have ks: "detect_drift_ks_test example_library text_detector text_only_frame None
              = Inl ZeroDivisionError"
    unfolding detect_drift_ks_test_def default_columns_text by (simp add: make_summary_def)
  have ps: "detect_drift_psi example_library text_detector text_only_frame None 10 = Inl ZeroDivisionError"
    unfolding detect_drift_psi_def default_columns_text by (simp add: make_summary_def)
  show ?thesis by (simp add: ks ps generate_drift_report_def)
qed

subsection \<open>The KS entries\<close>

lemma reference_example: "reference_data example_detector = single_column_frame [Fin 0, Fin 10]"
  and threshold_example: "threshold example_detector = Fin 0.05"
  by (simp_all add: example_detector_def init_detector_def)

lemma ks_column_example:
  "ks_column example_library example_detector (single_column_frame xs) ''x'' =
     Inr \<lparr>statistic = Fin 0, p_value = Fin 1, ks_is_drifted = False, ks_threshold = Fin 0.05\<rparr>"
  by (simp add: ks_column_def reference_example threshold_example single_column_frame_def
      getitem_def example_library_def)

lemma detect_drift_ks_test_example:
  "detect_drift_ks_test example_library example_detector (single_column_frame xs) None =
     Inr \<lparr>total_features = 1, drifted_features = 0, drift_percentage = 0,
          drifted_feature_names = [],
          details = [(''x'', \<lparr>statistic = Fin 0, p_value = Fin 1, ks_is_drifted = False,
                              ks_threshold = Fin 0.05\<rparr>)]\<rparr>"
  unfolding detect_drift_ks_test_def default_columns_example df_columns_example
  by (simp add: ks_column_example make_summary_def)

lemma detect_drift_psi_disjoint:
  "detect_drift_psi example_library example_detector (single_column_frame [Fin 50]) None 2 =
     Inr \<lparr>total_features = 1, drifted_features = 1, drift_percentage = 100,
          drifted_feature_names = [''x''],
          details = [(''x'', \<lparr>psi = Fin (2 * ((0.0001 - 0.5) * ln (0.0001 / 0.5))),
                              drift_level = ''significant'', is_drifted = True\<rparr>)]\<rparr>"
  unfolding detect_drift_psi_def default_columns_example df_columns_example
  by (simp add: psi_column_disjoint make_summary_def)

theorem summary_names_amended_witness:
  "detect_drift_ks_test example_library example_detector (single_column_frame [Fin 50]) None =
     Inr \<lparr>total_features = 1, drifted_features = 0, drift_percentage = 0,
          drifted_feature_names = [],
          details = [(''x'', \<lparr>statistic = Fin 0, p_value = Fin 1, ks_is_drifted = False,
                              ks_threshold = Fin 0.05\<rparr>)]\<rparr>
   \<and> detect_drift_psi example_library example_detector (single_column_frame [Fin 50]) None 2 =
     Inr \<lparr>total_features = 1, drifted_features = 1, drift_percentage = 100,
          drifted_feature_names = [''x''],
          details = [(''x'', \<lparr>psi = Fin (2 * ((0.0001 - 0.5) * ln (0.0001 / 0.5))),
                              drift_level = ''significant'', is_drifted = True\<rparr>)]\<rparr>
   \<and> names_are_drifted_columns ks_is_drifted [''x'']
        \<lparr>total_features = 1, drifted_features = 0, drift_percentage = 0,
          drifted_feature_names = [],
          details = [(''x'', \<lparr>statistic = Fin 0, p_value = Fin 1, ks_is_drifted = False,
                              ks_threshold = Fin 0.05\<rparr>)]\<rparr>
   \<and> names_are_drifted_columns is_drifted [''x'']
        \<lparr>total_features = 1, drifted_features = 1, drift_percentage = 100,
          drifted_feature_names = [''x''],
          details = [(''x'', \<lparr>psi = Fin (2 * ((0.0001 - 0.5) * ln (0.0001 / 0.5))),
                              drift_level = ''significant'', is_drifted = True\<rparr>)]\<rparr>"
  using summary_names_amended [of example_library example_detector
      "single_column_frame [Fin 50]" None _ 2]
    detect_drift_ks_test_example [of "[Fin 50]"] detect_drift_psi_disjoint default_columns_example
  by (simp)

lemma ks_column_entry:
  assumes "ks_column lib det cur col = Inr r"
  shows "ks_entry_of lib det cur col r"
proof (cases "getitem (reference_data det) col")
  case (Inl e)
  with assms show ?thesis by (simp add: ks_column_def)
next
  case rs: (Inr rs)
  show ?thesis
  proof (cases "getitem cur col")
    case (Inl e)
    with assms rs show ?thesis by (simp add: ks_column_def)
  next
    case cs: (Inr cs)
    show ?thesis
    proof (cases "ks_2samp lib (dropna rs) (dropna cs)")
      case (Inl e)
      with assms rs cs show ?thesis by (simp add: ks_column_def)
    next
      case (Inr sp)
      with assms rs cs have r: "r = \<lparr>statistic = fst sp, p_value = snd sp,
                         ks_is_drifted = fl_less (snd sp) (threshold det),
                         ks_threshold = threshold det\<rparr>"
        by (simp add: ks_column_def)
      have "ks_2samp lib (dropna rs) (dropna cs) = Inr (fst sp, snd sp)" using Inr by simp
      with rs cs show ?thesis unfolding ks_entry_of_def r by (intro exI [of _ rs] exI [of _ cs] exI [of _ "fst sp"] exI [of _ "snd sp"]) simp
    qed
  qed
qed

text \<open>
  C9. For every column tested by \<open>detect_drift_ks_test\<close>, \<open>is_drifted\<close> is true iff the
  p-value of the two-sample KS test, on the reference and the current column after each
  has dropped its missing values, is less than the detector's threshold; the entry's
  \<open>threshold\<close> is the detector's.
\<close>

theorem ks_is_drifted_iff:
  assumes "detect_drift_ks_test lib det cur columns = Inr s"
    and "map_of (details s) col = Some r"
  shows "ks_entry_of lib det cur col r"
proof -
  from assms(1) obtain out where
    loop: "test_loop (ks_column lib det cur) ks_is_drifted (df_columns cur)
             (default_columns det columns) [] [] = Inr out"
    and mk: "make_summary (default_columns det columns) (snd out) (fst out) = Inr s"
    by (rule detect_drift_ks_test_run)
  have "\<forall>c r. map_of (fst out) c = Some r \<longrightarrow> ks_entry_of lib det cur c r"
    by (rule test_loop_invariant [OF loop]) (auto dest: ks_column_entry)
  moreover have "details s = fst out" using make_summary_fields(5) [OF mk] .
  ultimately show ?thesis using assms(2) by simp
qed

theorem ks_is_drifted_iff_witness:
  "detect_drift_ks_test example_library example_detector (single_column_frame [Fin 50]) None =
     Inr \<lparr>total_features = 1, drifted_features = 0, drift_percentage = 0,
          drifted_feature_names = [],
          details = [(''x'', \<lparr>statistic = Fin 0, p_value = Fin 1, ks_is_drifted = False,
                              ks_threshold = Fin 0.05\<rparr>)]\<rparr>
   \<and> ks_entry_of example_library example_detector (single_column_frame [Fin 50]) ''x''
        \<lparr>statistic = Fin 0, p_value = Fin 1, ks_is_drifted = False, ks_threshold = Fin 0.05\<rparr>"
  using ks_is_drifted_iff [OF detect_drift_ks_test_example [of "[Fin 50]"], of "''x''"
      "\<lparr>statistic = Fin 0, p_value = Fin 1, ks_is_drifted = False, ks_threshold = Fin 0.05\<rparr>"]
    detect_drift_ks_test_example [of "[Fin 50]"]
  by simp

subsection \<open>The report\<close>

lemma linspace_ten:
  "linspace (\<lambda>x. x) 0 10 11 = [0, 1, 2, 3, 4, 5, 6, 7, 8, 9, 10]"
  by (simp add: linspace_def Let_def upt_conv_Cons eval_nat_numeral)

lemma edges_ten:
  "histogram_bin_edges (\<lambda>x. x) (Numeric [Fin 0, Fin 10]) 10 =
     Inr [0, 1, 2, 3, 4, 5, 6, 7, 8, 9, 10]"
proof -
  have "nat 10 + 1 = (11::nat)" by simp
  then show ?thesis
    using linspace_ten by (simp add: histogram_bin_edges_def get_outer_edges_def Let_def)
qed

lemma counts_ten:
  "histogram_counts (Numeric [Fin 0, Fin 10])
     [0, 1, 2, 3, 4, 5, 6, 7, 8, 9, 10] =
     Inr [1, 0, 0, 0, 0, 0, 0, 0, 0, 1]"
  by (simp add: histogram_counts_def upt_conv_Cons eval_nat_numeral)

lemma counts_outside_ten:
  "histogram_counts (Numeric [Fin 50])
     [0, 1, 2, 3, 4, 5, 6, 7, 8, 9, 10] =
     Inr [0, 0, 0, 0, 0, 0, 0, 0, 0, 0]"
  by (simp add: histogram_counts_def upt_conv_Cons eval_nat_numeral)

lemma column_psi_ten:
  "column_psi (\<lambda>x. x) (Numeric [Fin 0, Fin 10]) (Numeric [Fin 50]) 10 =
     Inr (Fin (2 * ((0.0001 - 0.5) * ln (0.0001 / 0.5))))"
  by (simp add: column_psi_def edges_ten counts_ten counts_outside_ten
      percents_def floor_zero_def np_sum_def Let_def)

lemma psi_column_ten:
  "psi_column example_library example_detector (single_column_frame [Fin 50]) 10 ''x'' =
     Inr \<lparr>psi = Fin (2 * ((0.0001 - 0.5) * ln (0.0001 / 0.5))), drift_level = ''significant'',
      is_drifted = True\<rparr>"
proof -
  have "psi_column example_library example_detector (single_column_frame [Fin 50]) 10 ''x'' =
        Inr (classify_psi (Fin (2 * ((0.0001 - 0.5) * ln (0.0001 / 0.5)))))"
    by (simp add: psi_column_def float_round_example example_detector_def init_detector_def
      single_column_frame_def getitem_def column_psi_ten)
  then show ?thesis by (simp only: classify_psi_disjoint)
qed

lemma detect_drift_psi_ten:
  "detect_drift_psi example_library example_detector (single_column_frame [Fin 50]) None 10 =
     Inr \<lparr>total_features = 1, drifted_features = 1, drift_percentage = 100,
          drifted_feature_names = [''x''],
          details = [(''x'', \<lparr>psi = Fin (2 * ((0.0001 - 0.5) * ln (0.0001 / 0.5))),
                              drift_level = ''significant'', is_drifted = True\<rparr>)]\<rparr>"
  unfolding detect_drift_psi_def default_columns_example df_columns_example
  by (simp add: psi_column_ten make_summary_def)

lemma generate_drift_report_example:
  "generate_drift_report example_library example_detector now (single_column_frame [Fin 50]) =
     Inr (build_report example_detector now (single_column_frame [Fin 50])
            \<lparr>total_features = 1, drifted_features = 0, drift_percentage = 0,
             drifted_feature_names = [],
             details = [(''x'', \<lparr>statistic = Fin 0, p_value = Fin 1, ks_is_drifted = False,
                                 ks_threshold = Fin 0.05\<rparr>)]\<rparr>
            \<lparr>total_features = 1, drifted_features = 1, drift_percentage = 100,
             drifted_feature_names = [''x''],
             details = [(''x'', \<lparr>psi = Fin (2 * ((0.0001 - 0.5) * ln (0.0001 / 0.5))),
                                 drift_level = ''significant'', is_drifted = True\<rparr>)]\<rparr>
            (compute_statistics example_library (single_column_frame [Fin 50])))"
  unfolding generate_drift_report_def
  by (simp only: detect_drift_ks_test_example detect_drift_psi_ten sum.case)

lemma generate_drift_report_cases:
  assumes "generate_drift_report lib det now cur = Inr rep"
  obtains ks ps where "detect_drift_ks_test lib det cur None = Inr ks"
    "detect_drift_psi lib det cur None 10 = Inr ps"
    "rep = build_report det now cur ks ps (compute_statistics lib cur)"
proof (cases "detect_drift_ks_test lib det cur None")
  case (Inl e)
  with assms show ?thesis by (simp add: generate_drift_report_def)
next
  case ks: (Inr ks)
  show ?thesis
  proof (cases "detect_drift_psi lib det cur None 10")
    case (Inl e)
    with assms ks show ?thesis by (simp add: generate_drift_report_def)
  next
    case (Inr ps)
    with assms ks have "rep = build_report det now cur ks ps (compute_statistics lib cur)"
      by (simp add: generate_drift_report_def)
    with ks Inr that show ?thesis by blast
  qed
qed

lemma build_report_fields:
  "ks_test (build_report det now cur ks ps st) = ks"
  "psi_test (build_report det now cur ks ps st) = ps"
  "timestamp (build_report det now cur ks ps st) = now"
  "overall_drift_detected (build_report det now cur ks ps st) =
     (0 < drifted_features ks \<or> 0 < drifted_features ps)"
  by (simp_all add: build_report_def)

text \<open>
  C3. In every report of \<open>generate_drift_report\<close>, \<open>overall_drift_detected\<close> is true iff
  \<open>ks_test.drifted_features > 0\<close> or \<open>psi_test.drifted_features > 0\<close>.
\<close>

theorem overall_drift_detected_iff:
  assumes "generate_drift_report lib det now cur = Inr rep"
  shows "overall_drift_detected rep \<longleftrightarrow>
           0 < drifted_features (ks_test rep) \<or> 0 < drifted_features (psi_test rep)"
proof -
  from assms obtain ks ps where
    "rep = build_report det now cur ks ps (compute_statistics lib cur)"
    by (rule generate_drift_report_cases)
  then show ?thesis by (simp only: build_report_fields)
qed

theorem overall_drift_detected_iff_witness:
  "generate_drift_report example_library example_detector ''2026-01-01T00:00:00''
       (single_column_frame [Fin 50]) =
     Inr (build_report example_detector ''2026-01-01T00:00:00'' (single_column_frame [Fin 50])
            \<lparr>total_features = 1, drifted_features = 0, drift_percentage = 0,
             drifted_feature_names = [],
             details = [(''x'', \<lparr>statistic = Fin 0, p_value = Fin 1, ks_is_drifted = False,
                                 ks_threshold = Fin 0.05\<rparr>)]\<rparr>
            \<lparr>total_features = 1, drifted_features = 1, drift_percentage = 100,
             drifted_feature_names = [''x''],
             details = [(''x'', \<lparr>psi = Fin (2 * ((0.0001 - 0.5) * ln (0.0001 / 0.5))),
                                 drift_level = ''significant'', is_drifted = True\<rparr>)]\<rparr>
            (compute_statistics example_library (single_column_frame [Fin 50])))
   \<and> overall_drift_detected
        (build_report example_detector ''2026-01-01T00:00:00'' (single_column_frame [Fin 50])
            \<lparr>total_features = 1, drifted_features = 0, drift_percentage = 0,
             drifted_feature_names = [],
             details = [(''x'', \<lparr>statistic = Fin 0, p_value = Fin 1, ks_is_drifted = False,
                                 ks_threshold = Fin 0.05\<rparr>)]\<rparr>
            \<lparr>total_features = 1, drifted_features = 1, drift_percentage = 100,
             drifted_feature_names = [''x''],
             details = [(''x'', \<lparr>psi = Fin (2 * ((0.0001 - 0.5) * ln (0.0001 / 0.5))),
                                 drift_level = ''significant'', is_drifted = True\<rparr>)]\<rparr>
            (compute_statistics example_library (single_column_frame [Fin 50])))"
  using overall_drift_detected_iff [OF generate_drift_report_example [of "''2026-01-01T00:00:00''"]]
    generate_drift_report_example [of "''2026-01-01T00:00:00''"]
  by (simp add: build_report_fields)

text \<open>
  C4 (amended). Two calls of \<open>generate_drift_report\<close> on the same detector with the same
  current dataset return reports that are equal in every field but \<open>timestamp\<close>, which is
  the clock's reading at each call (and they raise the same exception if they raise).
\<close>

theorem report_equal_but_timestamp:
  "map_sum id without_timestamp (generate_drift_report lib det now1 cur) =
   map_sum id without_timestamp (generate_drift_report lib det now2 cur)"
proof (cases "detect_drift_ks_test lib det cur None")
  case (Inl e)
  then show ?thesis by (simp add: generate_drift_report_def)
next
  case ks: (Inr ks)
  show ?thesis
  proof (cases "detect_drift_psi lib det cur None 10")
    case (Inl e)
    with ks show ?thesis by (simp add: generate_drift_report_def)
  next
    case (Inr ps)
    with ks show ?thesis
      by (simp add: generate_drift_report_def build_report_def without_timestamp_def)
  qed
qed

text \<open>
  C4 as stated fails: two calls at different clock readings return different
  reports.
\<close>

theorem report_timestamp_counterexample:
  "generate_drift_report example_library example_detector ''2026-01-01T00:00:00''
       (single_column_frame [Fin 50])
   \<noteq> generate_drift_report example_library example_detector ''2026-01-01T00:00:01''
       (single_column_frame [Fin 50])"
proof
  assume eq: "generate_drift_report example_library example_detector ''2026-01-01T00:00:00''
       (single_column_frame [Fin 50])
   = generate_drift_report example_library example_detector ''2026-01-01T00:00:01''
       (single_column_frame [Fin 50])"
  have "map_sum id timestamp (generate_drift_report example_library example_detector t
       (single_column_frame [Fin 50])) = Inr t" for t
    by (simp only: generate_drift_report_example build_report_fields map_sum.simps)
  from this [of "''2026-01-01T00:00:00''"] this [of "''2026-01-01T00:00:01''"] eq
  show False by simp
qed

subsection \<open>The PSI is not negative\<close>

lemma psi_column_entry:
  assumes "psi_column lib det cur bins col = Inr r"
  shows "psi_entry_of lib det cur bins col r"
proof (cases "getitem (reference_data det) col")
  case (Inl e)
  with assms show ?thesis by (simp add: psi_column_def)
next
  case rs: (Inr rs)
  show ?thesis
  proof (cases "getitem cur col")
    case (Inl e)
    with assms rs show ?thesis by (simp add: psi_column_def)
  next
    case cs: (Inr cs)
    show ?thesis
    proof (cases "column_psi (float_round lib) (dropna rs) (dropna cs) bins")
      case (Inl e)
      with assms rs cs show ?thesis by (simp add: psi_column_def)
    next
      case (Inr p)
      with assms rs cs have "r = classify_psi p" by (simp add: psi_column_def)
      with rs cs Inr show ?thesis unfolding psi_entry_of_def by blast
    qed
  qed
qed

lemma detect_drift_psi_entry:
  assumes "detect_drift_psi lib det cur columns bins = Inr s"
    and "map_of (details s) col = Some r"
  shows "psi_entry_of lib det cur bins col r"
proof -
  from assms(1) obtain out where
    loop: "test_loop (psi_column lib det cur bins) is_drifted (df_columns cur)
             (default_columns det columns) [] [] = Inr out"
    and mk: "make_summary (default_columns det columns) (snd out) (fst out) = Inr s"
    by (rule detect_drift_psi_run)
  have "\<forall>c r. map_of (fst out) c = Some r \<longrightarrow> psi_entry_of lib det cur bins c r"
    by (rule test_loop_invariant [OF loop]) (auto dest: psi_column_entry)
  moreover have "details s = fst out" using make_summary_fields(5) [OF mk] .
  ultimately show ?thesis using assms(2) by simp
qed

lemma pos_fin_percents:
  assumes "n \<noteq> 0"
  shows "list_all pos_fin (floor_zero (percents counts n))"
proof -
  have "pos_fin (if Fin (real c / real n) = Fin 0 then Fin 0.0001 else Fin (real c / real n))"
    for c :: nat
    using assms by (cases "c = 0") simp_all
  then have "list_all pos_fin
      (map (\<lambda>p. if p = Fin 0 then Fin 0.0001 else p) (map (\<lambda>c. Fin (real c / real n)) counts))"
    by (induction counts) simp_all
  then show ?thesis
    using assms by (simp only: floor_zero_def percents_def if_False)
qed

lemma psi_term_nonneg:
  assumes "pos_fin c" "pos_fin r"
  shows "nonneg_fin (psi_term c r)"
proof -
  from assms obtain x y where c: "c = Fin x" and r: "r = Fin y" and x: "0 < x" and y: "0 < y"
    by (cases c; cases r) auto
  have "0 \<le> (x - y) * ln (x / y)"
  proof (cases "y \<le> x")
    case True
    then have "1 \<le> x / y" using y by simp
    then have "0 \<le> ln (x / y)" by simp
    moreover have "0 \<le> x - y" using True by simp
    ultimately show ?thesis by simp
  next
    case False
    then have "x / y \<le> 1" using y by simp
    moreover have "0 < x / y" using x y by simp
    ultimately have "ln (x / y) \<le> 0" by simp
    moreover have "x - y \<le> 0" using False by simp
    ultimately show ?thesis by (simp add: mult_nonpos_nonpos)
  qed
  then show ?thesis using x y by (simp add: c r)
qed

lemma map2_psi_term_nonneg:
  "list_all pos_fin cs \<Longrightarrow> list_all pos_fin rs \<Longrightarrow> list_all nonneg_fin (map2 psi_term cs rs)"
proof (induction cs arbitrary: rs)
  case Nil
  then show ?case by simp
next
  case (Cons c cs)
  then show ?case by (cases rs) (simp_all add: psi_term_nonneg)
qed

lemma fl_add_nonneg: "nonneg_fin a \<Longrightarrow> nonneg_fin b \<Longrightarrow> nonneg_fin (fl_add a b)"
  by (cases a; cases b) simp_all

lemma np_sum_nonneg: "list_all nonneg_fin xs \<Longrightarrow> nonneg_fin (np_sum xs)"
  unfolding np_sum_def by (induction xs) (simp_all add: fl_add_nonneg)

lemma column_psi_nonneg:
  assumes "column_psi rnd ref_data curr_data bins = Inr p"
    and "series_len ref_data \<noteq> 0" and "series_len curr_data \<noteq> 0"
  shows "nonneg_fin p"
proof (cases "histogram_bin_edges rnd ref_data bins")
  case (Inl e)
  with assms(1) show ?thesis by (simp add: column_psi_def)
next
  case edges: (Inr bin_edges)
  show ?thesis
  proof (cases "histogram_counts ref_data bin_edges")
    case (Inl e)
    with assms(1) edges show ?thesis by (simp add: column_psi_def)
  next
    case rc: (Inr ref_counts)
    show ?thesis
    proof (cases "histogram_counts curr_data bin_edges")
      case (Inl e)
      with assms(1) edges rc show ?thesis by (simp add: column_psi_def)
    next
      case (Inr curr_counts)
      with assms(1) edges rc have
        p: "p = np_sum (map2 psi_term
                  (floor_zero (percents curr_counts (series_len curr_data)))
                  (floor_zero (percents ref_counts (series_len ref_data))))"
        by (simp add: column_psi_def Let_def)
      show ?thesis
        unfolding p
        by (intro np_sum_nonneg map2_psi_term_nonneg pos_fin_percents assms(2) assms(3))
    qed
  qed
qed

lemma nonneg_fin_classify: "nonneg_fin p \<Longrightarrow> fl_ge (psi (classify_psi p)) (Fin 0)"
  by (cases p) (simp_all add: classify_psi_psi)

text \<open>
  C8. For every column whose reference and current samples are both non-empty after
  their missing values are dropped, the psi that \<open>detect_drift_psi\<close> reports is a number
  greater than or equal to 0.
\<close>

theorem psi_nonnegative:
  assumes "detect_drift_psi lib det cur columns bins = Inr s"
    and "map_of (details s) col = Some r"
    and "getitem (reference_data det) col = Inr rs" and "getitem cur col = Inr cs"
    and "series_len (dropna rs) \<noteq> 0" and "series_len (dropna cs) \<noteq> 0"
  shows "fl_ge (psi r) (Fin 0)"
proof -
  from detect_drift_psi_entry [OF assms(1) assms(2)] assms(3) assms(4) obtain p where
    "column_psi (float_round lib) (dropna rs) (dropna cs) bins = Inr p" and r: "r = classify_psi p"
    by (auto simp: psi_entry_of_def)
  from column_psi_nonneg [OF this(1) assms(5) assms(6)] show ?thesis
    unfolding r by (rule nonneg_fin_classify)
qed

theorem psi_nonnegative_witness:
  "detect_drift_psi example_library example_detector (single_column_frame [Fin 50]) None 10 =
     Inr \<lparr>total_features = 1, drifted_features = 1, drift_percentage = 100,
          drifted_feature_names = [''x''],
          details = [(''x'', \<lparr>psi = Fin (2 * ((0.0001 - 0.5) * ln (0.0001 / 0.5))),
                              drift_level = ''significant'', is_drifted = True\<rparr>)]\<rparr>
   \<and> getitem (reference_data example_detector) ''x'' = Inr (Numeric [Fin 0, Fin 10])
   \<and> getitem (single_column_frame [Fin 50]) ''x'' = Inr (Numeric [Fin 50])
   \<and> series_len (dropna (Numeric [Fin 0, Fin 10])) = 2
   \<and> series_len (dropna (Numeric [Fin 50])) = 1
   \<and> fl_ge (Fin (2 * ((0.0001 - 0.5) * ln (0.0001 / 0.5)))) (Fin 0)"
proof -
  have g1: "getitem (reference_data example_detector) ''x'' = Inr (Numeric [Fin 0, Fin 10])"
    by (simp add: getitem_def reference_example single_column_frame_def)
  have g2: "getitem (single_column_frame [Fin 50]) ''x'' = Inr (Numeric [Fin 50])"
    by (simp add: getitem_def single_column_frame_def)
  have l1: "series_len (dropna (Numeric [Fin 0, Fin 10])) = 2" by simp
  have l2: "series_len (dropna (Numeric [Fin 50])) = 1" by simp
  have "fl_ge (psi \<lparr>psi = Fin (2 * ((0.0001 - 0.5) * ln (0.0001 / 0.5))),
                              drift_level = ''significant'', is_drifted = True\<rparr>) (Fin 0)"
    by (rule psi_nonnegative [OF detect_drift_psi_ten _ g1 g2]) (simp_all only: l1 l2, simp_all)
  then have "fl_ge (Fin (2 * ((0.0001 - 0.5) * ln (0.0001 / 0.5)))) (Fin 0)"
    by (simp only: psi_result.simps)
  with detect_drift_psi_ten g1 g2 l1 l2 show ?thesis by blast
qed

subsection \<open>The PSI is the reference definition\<close>




























subsection \<open>The report serializer and non-finite floats\<close>

lemma counts_empty_ten:
  "histogram_counts (Numeric [])
     [0, 1, 2, 3, 4, 5, 6, 7, 8, 9, 10] =
     Inr [0, 0, 0, 0, 0, 0, 0, 0, 0, 0]"
  by (simp add: histogram_counts_def upt_conv_Cons eval_nat_numeral)

lemma column_psi_missing:
  "column_psi (\<lambda>x. x) (Numeric [Fin 0, Fin 10]) (Numeric []) 10 = Inr NaN"
  by (simp add: column_psi_def edges_ten counts_ten counts_empty_ten
      percents_def floor_zero_def np_sum_def Let_def)

lemma classify_psi_nan:
  "classify_psi NaN = \<lparr>psi = NaN, drift_level = ''none'', is_drifted = False\<rparr>"
  by (simp add: classify_psi_def)

lemma psi_column_missing:
  "psi_column example_library example_detector (single_column_frame [NaN]) 10 ''x'' =
     Inr \<lparr>psi = NaN, drift_level = ''none'', is_drifted = False\<rparr>"
  by (simp add: psi_column_def float_round_example reference_example single_column_frame_def getitem_def
      column_psi_missing classify_psi_nan)

lemma detect_drift_psi_missing:
  "detect_drift_psi example_library example_detector (single_column_frame [NaN]) None 10 =
     Inr \<lparr>total_features = 1, drifted_features = 0, drift_percentage = 0,
          drifted_feature_names = [],
          details = [(''x'', \<lparr>psi = NaN, drift_level = ''none'', is_drifted = False\<rparr>)]\<rparr>"
  unfolding detect_drift_psi_def default_columns_example df_columns_example
  by (simp add: psi_column_missing make_summary_def)

lemma save_report_missing:
  "save_report (psi_summary_dict
       \<lparr>total_features = 1, drifted_features = 0, drift_percentage = 0,
        drifted_feature_names = [],
        details = [(''x'', \<lparr>psi = NaN, drift_level = ''none'', is_drifted = False\<rparr>)]\<rparr>) =
     Inr (JObject
       [(''total_features'', JNumber 1), (''drifted_features'', JNumber 0),
        (''drift_percentage'', JNumber 0), (''drifted_feature_names'', JArray []),
        (''details'', JObject [(''x'', JObject
           [(''psi'', JLiteral ''NaN''), (''drift_level'', JString ''none''),
            (''is_drifted'', JLiteral ''false'')])])])"
  by (simp add: save_report_def json_dump_def psi_summary_dict_def psi_result_dict_def)

lemma convert_serializable: "serializable (convert_to_json_serializable obj)"
  by (induction obj rule: convert_to_json_serializable.induct)
    (auto simp: list_all_iff)

lemma save_report_succeeds: "save_report obj = Inr (encode (convert_to_json_serializable obj))"
  by (simp add: save_report_def json_dump_def convert_serializable)

text \<open>
  C5. The serialization does not fail on a non-finite float (\<open>save_report_succeeds\<close>), but
  it does not write valid JSON: \<open>save_report\<close> writes the word \<open>NaN\<close> for nan, here for
  the psi of a current column whose values are all missing.
\<close>

theorem save_report_writes_nan:
  "detect_drift_psi example_library example_detector (single_column_frame [NaN]) None 10 =
     Inr \<lparr>total_features = 1, drifted_features = 0, drift_percentage = 0,
          drifted_feature_names = [],
          details = [(''x'', \<lparr>psi = NaN, drift_level = ''none'', is_drifted = False\<rparr>)]\<rparr>
   \<and> save_report (psi_summary_dict
       \<lparr>total_features = 1, drifted_features = 0, drift_percentage = 0,
        drifted_feature_names = [],
        details = [(''x'', \<lparr>psi = NaN, drift_level = ''none'', is_drifted = False\<rparr>)]\<rparr>) =
     Inr (JObject
       [(''total_features'', JNumber 1), (''drifted_features'', JNumber 0),
        (''drift_percentage'', JNumber 0), (''drifted_feature_names'', JArray []),
        (''details'', JObject [(''x'', JObject
           [(''psi'', JLiteral ''NaN''), (''drift_level'', JString ''none''),
            (''is_drifted'', JLiteral ''false'')])])])
   \<and> \<not> valid_json (JObject
       [(''total_features'', JNumber 1), (''drifted_features'', JNumber 0),
        (''drift_percentage'', JNumber 0), (''drifted_feature_names'', JArray []),
        (''details'', JObject [(''x'', JObject
           [(''psi'', JLiteral ''NaN''), (''drift_level'', JString ''none''),
            (''is_drifted'', JLiteral ''false'')])])])"
  using detect_drift_psi_missing save_report_missing by simp

lemma save_report_numpy_nan:
  "save_report (PDict [(k, NpFloating NaN)]) = Inr (JObject [(k, JLiteral ''NaN'')])"
  "save_report (PDict [(k, NpFloating PInf)]) = Inr (JObject [(k, JLiteral ''Infinity'')])"
  "save_report (PDict [(k, NpFloating NInf)]) = Inr (JObject [(k, JLiteral ''-Infinity'')])"
  by (simp_all add: save_report_def json_dump_def)

end
